theory Spec2Isabelle
  imports Complex_Main
begin

section \<open>Reward functions of the market-making environment\<close>

text \<open>
  A shallow embedding of \<^verbatim>\<open>DRL4AMM/rewards/RewardFunctions.py\<close>.

  Numbers. The observations are numpy arrays of floating-point numbers. They are modelled
  as lists of real numbers, so every arithmetic operation is the exact one: rounding,
  overflow to infinity and NaN are outside the model. The one place where the source
  leaves the finite numbers on finite arguments, zero raised to a negative power, is a
  branch of the model (the error \<open>NonFinite\<close>).

  Errors. Reading an index an observation does not have raises \<^verbatim>\<open>IndexError\<close> in the
  source; the model returns it as a value, so every \<^verbatim>\<open>calculate\<close> has the result
  type \<open>error + real\<close>.
\<close>

subsection \<open>Errors and observations\<close>

datatype error =
    IndexError         \<comment> \<open>an observation is read at an index it does not have\<close>
  | NonFinite          \<comment> \<open>the floating-point result is an infinity or a NaN\<close>
  | ValidationError    \<comment> \<open>a configuration value is rejected; no constructor of the source raises it\<close>

text \<open>The observation space is \<^verbatim>\<open>(stock_price, cash, inventory, time)\<close>.\<close>

type_synonym observation = "real list"

definition well_formed :: "observation \<Rightarrow> bool" where
  "well_formed obs = (length obs = 4)"

text \<open>\<^verbatim>\<open>obs[i]\<close> for a constant index \<open>i \<ge> 0\<close>.\<close>

definition getitem :: "observation \<Rightarrow> nat \<Rightarrow> error + real" where
  "getitem obs i = (if i < length obs then Inr (obs ! i) else Inl IndexError)"

text \<open>Sequencing: the first error raised ends the computation.\<close>

definition bindE :: "error + 'a \<Rightarrow> ('a \<Rightarrow> error + 'b) \<Rightarrow> error + 'b" where
  "bindE m f = (case m of Inl e \<Rightarrow> Inl e | Inr x \<Rightarrow> f x)"

text \<open>
  \<^verbatim>\<open>x ** y\<close> on floating-point numbers, by the cases of IEEE \<^verbatim>\<open>pow\<close>: anything to
  the power zero is one; zero to a positive power is zero and to a negative power an
  infinity; a negative base has a finite power for an integral exponent only.
\<close>

definition float_pow :: "real \<Rightarrow> real \<Rightarrow> error + real" where
  "float_pow x y =
     (if y = 0 then Inr 1
      else if x = 0 then (if 0 < y then Inr 0 else Inl NonFinite)
      else if 0 < x then Inr (x powr y)
      else if of_int \<lfloor>y\<rfloor> = y
        then Inr ((if even \<lfloor>y\<rfloor> then 1 else - 1) * (\<bar>x\<bar> powr y))
      else Inl NonFinite)"

subsection \<open>PnL\<close>

text \<open>
  \<^verbatim>\<open>class PnL\<close> has no fields. Its \<^verbatim>\<open>calculate\<close> reads indices 1, 0, 2 of the
  current state, then of the next state; the action and the terminal flag are parameters
  it never reads.
\<close>

definition PnL_calculate :: "observation \<Rightarrow> 'a \<Rightarrow> observation \<Rightarrow> bool \<Rightarrow> error + real" where
  "PnL_calculate current_state action next_state is_terminal_step =
     bindE (getitem current_state 1) (\<lambda>c1.
     bindE (getitem current_state 0) (\<lambda>c0.
     bindE (getitem current_state 2) (\<lambda>c2.
     let current_market_value = c1 + c0 * c2 in
     bindE (getitem next_state 1) (\<lambda>n1.
     bindE (getitem next_state 0) (\<lambda>n0.
     bindE (getitem next_state 2) (\<lambda>n2.
     let next_market_value = n1 + n0 * n2 in
     Inr (next_market_value - current_market_value)))))))"

subsection \<open>CJ\_criterion\<close>

text \<open>
  \<^verbatim>\<open>phi\<close> and \<^verbatim>\<open>terminal_penalty\<close> are parameters of the call, each with the
  default 0.01. \<^verbatim>\<open>dt*phi*d**2\<close> is \<^verbatim>\<open>(dt*phi)*(d**2)\<close>.
\<close>

definition CJ_default :: real where
  "CJ_default = 1 / 100"

definition CJ_criterion_calculate ::
  "observation \<Rightarrow> 'a \<Rightarrow> observation \<Rightarrow> bool \<Rightarrow> real \<Rightarrow> real \<Rightarrow> error + real" where
  "CJ_criterion_calculate current_state action next_state is_terminal_step phi terminal_penalty =
     bindE (getitem current_state 1) (\<lambda>c1.
     bindE (getitem current_state 0) (\<lambda>c0.
     bindE (getitem current_state 2) (\<lambda>c2.
     let current_market_value = c1 + c0 * c2 in
     bindE (getitem next_state 1) (\<lambda>n1.
     bindE (getitem next_state 0) (\<lambda>n0.
     bindE (getitem next_state 2) (\<lambda>n2.
     let next_market_value = n1 + n0 * n2 in
     bindE (getitem next_state 3) (\<lambda>n3.
     bindE (getitem current_state 3) (\<lambda>c3.
     let dt = n3 - c3 in
     if is_terminal_step
     then Inr (next_market_value - current_market_value - dt * phi * (n2 - c2)\<^sup>2
               - terminal_penalty * (n2 - c2)\<^sup>2)
     else Inr (next_market_value - current_market_value - dt * phi * (n2 - c2)\<^sup>2)))))))))"

subsection \<open>TerminalExponentialUtility\<close>

record TerminalExponentialUtility =
  risk_aversion :: real

text \<open>
  The constructor stores its argument (0.1 when none is given). \<^verbatim>\<open>NonNegativeFloat\<close>
  is an annotation of the parameter: nothing in the constructor checks it.
\<close>

definition TerminalExponentialUtility_init :: "real \<Rightarrow> error + TerminalExponentialUtility" where
  "TerminalExponentialUtility_init ra = Inr \<lparr>risk_aversion = ra\<rparr>"

text \<open>A conditional expression: the next state is read on a terminal step only.\<close>

definition TerminalExponentialUtility_calculate ::
  "TerminalExponentialUtility \<Rightarrow> observation \<Rightarrow> 'a \<Rightarrow> observation \<Rightarrow> bool \<Rightarrow> error + real" where
  "TerminalExponentialUtility_calculate self current_state action next_state is_terminal_step =
     (if is_terminal_step
      then bindE (getitem next_state 1) (\<lambda>n1.
           bindE (getitem next_state 0) (\<lambda>n0.
           bindE (getitem next_state 2) (\<lambda>n2.
           Inr (- exp (- risk_aversion self * (n1 + n0 * n2))))))
      else Inr 0)"

subsection \<open>InventoryAdjustedPnL\<close>

text \<open>
  The field \<^verbatim>\<open>pnl_reward\<close> holds an instance of \<^verbatim>\<open>PnL\<close>, which has no state:
  calling it is calling \<open>PnL_calculate\<close>.
\<close>

record InventoryAdjustedPnL =
  per_step_inventory_aversion :: real
  terminal_inventory_aversion :: real
  inventory_exponent :: real
  step_size :: real

text \<open>
  The constructor stores its arguments; their defaults are 0.01, 0.0, 2.0 and 1.0 / 200.
  \<^verbatim>\<open>NonNegativeFloat\<close> and \<^verbatim>\<open>PositiveFloat\<close> are annotations only.
\<close>

definition InventoryAdjustedPnL_init ::
  "real \<Rightarrow> real \<Rightarrow> real \<Rightarrow> real \<Rightarrow> error + InventoryAdjustedPnL" where
  "InventoryAdjustedPnL_init psia tia ie ss =
     Inr \<lparr>per_step_inventory_aversion = psia, terminal_inventory_aversion = tia,
          inventory_exponent = ie, step_size = ss\<rparr>"

text \<open>
  The terminal flag is used as a number, 1 for true and 0 for false. The inner call of
  \<^verbatim>\<open>PnL.calculate\<close> passes three arguments, so its flag is the default, false.
\<close>

definition InventoryAdjustedPnL_calculate ::
  "InventoryAdjustedPnL \<Rightarrow> observation \<Rightarrow> 'a \<Rightarrow> observation \<Rightarrow> bool \<Rightarrow> error + real" where
  "InventoryAdjustedPnL_calculate self current_state action next_state is_terminal_step =
     (let inventory_aversion =
            of_bool is_terminal_step * terminal_inventory_aversion self
            + (1 - of_bool is_terminal_step) * step_size self * per_step_inventory_aversion self
      in bindE (PnL_calculate current_state action next_state False) (\<lambda>pnl.
         bindE (getitem next_state 2) (\<lambda>n2.
         bindE (float_pow \<bar>n2\<bar> (inventory_exponent self)) (\<lambda>p.
         Inr (pnl - inventory_aversion * p)))))"

section \<open>Properties\<close>

subsection \<open>Reading a well-formed observation\<close>

lemma getitem_well_formed:
  "well_formed obs \<Longrightarrow> i < 4 \<Longrightarrow> getitem obs i = Inr (obs ! i)"
  by (simp add: well_formed_def getitem_def)

lemma bindE_Inr: "bindE (Inr x) f = f x"
  by (simp add: bindE_def)

lemma bindE_Inl: "bindE (Inl e) f = Inl e"
  by (simp add: bindE_def)

lemma PnL_calculate_well_formed:
  assumes "well_formed current_state" and "well_formed next_state"
  shows "PnL_calculate current_state action next_state is_terminal_step =
           Inr ((next_state ! 1 + next_state ! 0 * next_state ! 2)
                - (current_state ! 1 + current_state ! 0 * current_state ! 2))"
  using assms by (simp add: PnL_calculate_def getitem_well_formed bindE_Inr)


lemma float_pow_positive_exponent:
  "0 < y \<Longrightarrow> float_pow \<bar>x\<bar> y = Inr (\<bar>x\<bar> powr y)"
  by (simp add: float_pow_def)

subsection \<open>The exponential utility as a function of the wealth\<close>







subsection \<open>PnL\<close>

text \<open>
  C1. For well-formed observations \<open>current_state\<close> and \<open>next_state\<close>, any action and
  any terminal flag, \<open>PnL.calculate\<close> returns
  \<open>(next[1] + next[0] * next[2]) - (current[1] + current[0] * current[2])\<close>; another
  action and another flag give the same result.
\<close>

theorem C1_PnL_calculate:
  assumes "well_formed current_state" and "well_formed next_state"
  shows "PnL_calculate current_state action next_state is_terminal_step =
           Inr ((next_state ! 1 + next_state ! 0 * next_state ! 2)
                - (current_state ! 1 + current_state ! 0 * current_state ! 2))
         \<and> PnL_calculate current_state action next_state is_terminal_step =
           PnL_calculate current_state action' next_state is_terminal_step'"
  using assms by (simp add: PnL_calculate_well_formed)

theorem C1_PnL_calculate_witness:
  "well_formed [100, 0, 0, 0] \<and> well_formed [101, 0, 1, 1]
   \<and> PnL_calculate [100, 0, 0, 0] () [101, 0, 1, 1] False = Inr 101
   \<and> PnL_calculate [100, 0, 0, 0] () [101, 0, 1, 1] False =
     PnL_calculate [100, 0, 0, 0] (Some ()) [101, 0, 1, 1] True"
proof -
  have c: "well_formed [100, 0, 0, 0]" and n: "well_formed [101, 0, 1, 1]"
    by (simp_all add: well_formed_def)
  note t = C1_PnL_calculate [OF c n, of "()" False "Some ()" True]
  have "PnL_calculate [100, 0, 0, 0] () [101, 0, 1, 1] False = Inr 101"
    using t [THEN conjunct1] by simp
  with c n t [THEN conjunct2] show ?thesis by blast
qed



subsection \<open>CJ\_criterion\<close>

text \<open>
  C2. For well-formed observations, with \<open>dt = next[3] - current[3]\<close> and
  \<open>d_inv = next[2] - current[2]\<close>, \<open>CJ_criterion.calculate\<close> returns
  \<open>PnL - dt * phi * d_inv\<^sup>2\<close> on a non-terminal step and
  \<open>PnL - dt * phi * d_inv\<^sup>2 - terminal_penalty * d_inv\<^sup>2\<close> on a terminal step, where
  \<open>PnL\<close> is what \<open>PnL.calculate\<close> returns on the same transition.
\<close>

theorem C2_CJ_criterion_calculate:
  assumes "well_formed current_state" and "well_formed next_state"
  shows "\<exists>pnl. PnL_calculate current_state action' next_state is_terminal_step' = Inr pnl
           \<and> pnl = (next_state ! 1 + next_state ! 0 * next_state ! 2)
                   - (current_state ! 1 + current_state ! 0 * current_state ! 2)
           \<and> CJ_criterion_calculate current_state action next_state False phi terminal_penalty =
               Inr (pnl - (next_state ! 3 - current_state ! 3) * phi
                            * (next_state ! 2 - current_state ! 2)\<^sup>2)
           \<and> CJ_criterion_calculate current_state action next_state True phi terminal_penalty =
               Inr (pnl - (next_state ! 3 - current_state ! 3) * phi
                            * (next_state ! 2 - current_state ! 2)\<^sup>2
                        - terminal_penalty * (next_state ! 2 - current_state ! 2)\<^sup>2)"
  using assms
  by (simp add: PnL_calculate_well_formed CJ_criterion_calculate_def getitem_well_formed
      bindE_Inr)

theorem C2_CJ_criterion_calculate_witness:
  "well_formed [100, 0, 0, 0] \<and> well_formed [101, 0, 1, 1]
   \<and> (\<exists>pnl. PnL_calculate [100, 0, 0, 0] () [101, 0, 1, 1] False = Inr pnl
          \<and> pnl = 101
          \<and> CJ_criterion_calculate [100, 0, 0, 0] () [101, 0, 1, 1] False CJ_default CJ_default
              = Inr (10099 / 100)
          \<and> CJ_criterion_calculate [100, 0, 0, 0] () [101, 0, 1, 1] True CJ_default CJ_default
              = Inr (5049 / 50))"
proof -
  have c: "well_formed [100, 0, 0, 0]" and n: "well_formed [101, 0, 1, 1]"
    by (simp_all add: well_formed_def)
  from C2_CJ_criterion_calculate [OF c n, of "()" False "()" CJ_default CJ_default]
  obtain pnl where
    p: "PnL_calculate [100, 0, 0, 0] () [101, 0, 1, 1] False = Inr pnl" and
    v: "pnl = 101" and
    f: "CJ_criterion_calculate [100, 0, 0, 0] () [101, 0, 1, 1] False CJ_default CJ_default
          = Inr (pnl - (1 - 0) * CJ_default * (1 - 0)\<^sup>2)" and
    t: "CJ_criterion_calculate [100, 0, 0, 0] () [101, 0, 1, 1] True CJ_default CJ_default
          = Inr (pnl - (1 - 0) * CJ_default * (1 - 0)\<^sup>2 - CJ_default * (1 - 0)\<^sup>2)"
    by auto
  have "pnl - (1 - 0) * CJ_default * (1 - 0)\<^sup>2 = 10099 / 100"
    and "pnl - (1 - 0) * CJ_default * (1 - 0)\<^sup>2 - CJ_default * (1 - 0)\<^sup>2 = 5049 / 50"
    using v by (simp_all add: CJ_default_def)
  with c n p v f t show ?thesis by auto
qed

subsection \<open>TerminalExponentialUtility\<close>

text \<open>
  C3. For a well-formed next observation and any action, \<open>TerminalExponentialUtility.calculate\<close>
  returns 0 on a non-terminal step and \<open>- exp (- risk_aversion * (next[1] + next[0] * next[2]))\<close>
  on a terminal step, with the \<open>risk_aversion\<close> of the instance.
\<close>

theorem C3_TerminalExponentialUtility_calculate:
  assumes "well_formed current_state" and "well_formed next_state"
  shows "TerminalExponentialUtility_calculate self current_state action next_state False = Inr 0
         \<and> TerminalExponentialUtility_calculate self current_state action next_state True =
             Inr (- exp (- risk_aversion self
                           * (next_state ! 1 + next_state ! 0 * next_state ! 2)))"
  using assms
  by (simp add: TerminalExponentialUtility_calculate_def getitem_well_formed bindE_Inr)

theorem C3_TerminalExponentialUtility_calculate_witness:
  "well_formed [100, 0, 0, 0] \<and> well_formed [101, 0, 1, 1]
   \<and> TerminalExponentialUtility_calculate \<lparr>risk_aversion = 1 / 10\<rparr>
        [100, 0, 0, 0] () [101, 0, 1, 1] False = Inr 0
   \<and> TerminalExponentialUtility_calculate \<lparr>risk_aversion = 1 / 10\<rparr>
        [100, 0, 0, 0] () [101, 0, 1, 1] True = Inr (- exp (- (101 / 10)))"
proof -
  have c: "well_formed [100, 0, 0, 0]" and n: "well_formed [101, 0, 1, 1]"
    by (simp_all add: well_formed_def)
  from c n C3_TerminalExponentialUtility_calculate
    [OF c n, of "\<lparr>risk_aversion = 1 / 10\<rparr>" "()"]
  show ?thesis by simp
qed

text \<open>
  C10. \<open>TerminalExponentialUtility.calculate\<close> does not read the current observation: two
  calls that differ in it only (and in the action) return the same.
\<close>

theorem C10_TerminalExponentialUtility_ignores_current:
  "TerminalExponentialUtility_calculate self c1 action next_state is_terminal_step =
   TerminalExponentialUtility_calculate self c2 action' next_state is_terminal_step"
  by (simp add: TerminalExponentialUtility_calculate_def)




subsection \<open>InventoryAdjustedPnL\<close>

text \<open>
  C4. For well-formed observations and an instance whose \<open>inventory_exponent\<close> is positive,
  as its type \<^verbatim>\<open>PositiveFloat\<close> says, \<open>InventoryAdjustedPnL.calculate\<close> returns
  \<open>PnL - inventory_aversion * \<bar>next[2]\<bar> ^ inventory_exponent\<close>, where \<open>PnL\<close> is what
  \<open>PnL.calculate\<close> returns on the transition and \<open>inventory_aversion\<close> is
  \<open>terminal_inventory_aversion\<close> on a terminal step and
  \<open>step_size * per_step_inventory_aversion\<close> otherwise.
\<close>

theorem C4_InventoryAdjustedPnL_calculate:
  assumes "well_formed current_state" and "well_formed next_state"
    and "0 < inventory_exponent self"
  shows "\<exists>pnl. PnL_calculate current_state action next_state is_terminal_step' = Inr pnl
           \<and> InventoryAdjustedPnL_calculate self current_state action next_state is_terminal_step =
               Inr (pnl - (if is_terminal_step then terminal_inventory_aversion self
                           else step_size self * per_step_inventory_aversion self)
                          * \<bar>next_state ! 2\<bar> powr inventory_exponent self)"
  using assms
  by (simp add: PnL_calculate_well_formed InventoryAdjustedPnL_calculate_def
      getitem_well_formed bindE_Inr float_pow_positive_exponent)

theorem C4_InventoryAdjustedPnL_calculate_witness:
  "well_formed [100, 0, 0, 0] \<and> well_formed [101, 0, 5, 1] \<and> (0::real) < 2
   \<and> (\<exists>pnl. PnL_calculate [100, 0, 0, 0] () [101, 0, 5, 1] False = Inr pnl
          \<and> InventoryAdjustedPnL_calculate
               \<lparr>per_step_inventory_aversion = 1 / 100, terminal_inventory_aversion = 0,
                inventory_exponent = 2, step_size = 1 / 200\<rparr>
               [100, 0, 0, 0] () [101, 0, 5, 1] False = Inr (pnl - 1 / 800))
   \<and> (\<exists>pnl. PnL_calculate [100, 0, 0, 0] () [101, 0, 5, 1] False = Inr pnl
          \<and> InventoryAdjustedPnL_calculate
               \<lparr>per_step_inventory_aversion = 1 / 100, terminal_inventory_aversion = 0,
                inventory_exponent = 2, step_size = 1 / 200\<rparr>
               [100, 0, 0, 0] () [101, 0, 5, 1] True = Inr pnl)"
proof -
  let ?self = "\<lparr>per_step_inventory_aversion = 1 / 100, terminal_inventory_aversion = 0,
                inventory_exponent = 2, step_size = 1 / 200\<rparr> :: InventoryAdjustedPnL"
  have c: "well_formed [100, 0, 0, 0]" and n: "well_formed [101, 0, 5, 1]"
    by (simp_all add: well_formed_def)
  have e: "0 < inventory_exponent ?self" by simp
  have "(1 / 200 * (1 / 100)) * \<bar>5::real\<bar> powr 2 = 1 / 800" by simp
  with C4_InventoryAdjustedPnL_calculate [OF c n e, of "()" False False]
  have f: "\<exists>pnl. PnL_calculate [100, 0, 0, 0] () [101, 0, 5, 1] False = Inr pnl
          \<and> InventoryAdjustedPnL_calculate ?self
               [100, 0, 0, 0] () [101, 0, 5, 1] False = Inr (pnl - 1 / 800)"
    by simp
  from C4_InventoryAdjustedPnL_calculate [OF c n e, of "()" False True]
  have t: "\<exists>pnl. PnL_calculate [100, 0, 0, 0] () [101, 0, 5, 1] False = Inr pnl
          \<and> InventoryAdjustedPnL_calculate ?self
               [100, 0, 0, 0] () [101, 0, 5, 1] True = Inr pnl"
    by simp
  from c n f t show ?thesis by simp
qed



subsection \<open>Construction\<close>

text \<open>
  C8 as stated fails: a negative \<open>risk_aversion\<close>, negative inventory aversions and a zero
  \<open>inventory_exponent\<close> are accepted, and the instance holds them.
\<close>

theorem C8_invalid_configuration_accepted:
  "TerminalExponentialUtility_init (- 1) = Inr \<lparr>risk_aversion = - 1\<rparr>
   \<and> InventoryAdjustedPnL_init (- 1) (- 1) 0 (1 / 200) =
       Inr \<lparr>per_step_inventory_aversion = - 1, terminal_inventory_aversion = - 1,
            inventory_exponent = 0, step_size = 1 / 200\<rparr>"
  by (simp add: TerminalExponentialUtility_init_def InventoryAdjustedPnL_init_def)

text \<open>
  C8 (as amended). The constructors validate nothing: for every value of every parameter
  they return an instance, never an error, and each field of the instance is the value
  given, unchanged. That a coefficient is non-negative or the exponent positive is said by
  the annotations of the parameters only.
\<close>

theorem C8_constructors_store_unchanged:
  "(\<exists>self. TerminalExponentialUtility_init ra = Inr self \<and> risk_aversion self = ra)
   \<and> (\<exists>self. InventoryAdjustedPnL_init psia tia ie ss = Inr self
          \<and> per_step_inventory_aversion self = psia
          \<and> terminal_inventory_aversion self = tia
          \<and> inventory_exponent self = ie
          \<and> step_size self = ss)"
  by (simp add: TerminalExponentialUtility_init_def InventoryAdjustedPnL_init_def)

subsection \<open>The action\<close>

text \<open>
  C9. No reward function reads the action: for each of \<open>PnL\<close>, \<open>CJ_criterion\<close>,
  \<open>TerminalExponentialUtility\<close> and \<open>InventoryAdjustedPnL\<close>, two calls that differ in the
  action only return the same.
\<close>

theorem C9_action_ignored:
  "PnL_calculate current_state a1 next_state is_terminal_step =
     PnL_calculate current_state a2 next_state is_terminal_step
   \<and> CJ_criterion_calculate current_state a1 next_state is_terminal_step phi terminal_penalty =
     CJ_criterion_calculate current_state a2 next_state is_terminal_step phi terminal_penalty
   \<and> TerminalExponentialUtility_calculate teu current_state a1 next_state is_terminal_step =
     TerminalExponentialUtility_calculate teu current_state a2 next_state is_terminal_step
   \<and> InventoryAdjustedPnL_calculate iap current_state a1 next_state is_terminal_step =
     InventoryAdjustedPnL_calculate iap current_state a2 next_state is_terminal_step"
  by (simp add: PnL_calculate_def CJ_criterion_calculate_def
      TerminalExponentialUtility_calculate_def InventoryAdjustedPnL_calculate_def)

end
